theory Spec2Isabelle
  imports Complex_Main
begin

section \<open>The frame queue (utils/frameQueue.js)\<close>

text \<open>
  JavaScript numbers that hold times and rates (\<open>performance.now()\<close>, \<open>targetFPS\<close>,
  \<open>frameInterval\<close>, processing durations) are modelled as reals; counters and sizes
  (\<open>maxSize\<close> is a number of frames) are natural numbers. Every reading of \<open>performance.now()\<close> and every generated frame id is
  an argument of the function that takes it, so the model is deterministic.
  Division is only faithful for a non-zero divisor (JavaScript yields \<open>Infinity\<close> or
  \<open>NaN\<close> at zero, HOL yields 0); the theorems that depend on \<open>frameInterval\<close> being
  \<open>1000 / targetFPS\<close> say so.
\<close>

datatype error = TypeError

record frame =
  frame_id :: string
  frame_data :: string
  captureTimestamp :: real
  queueTimestamp :: real

record Metrics =
  m_queueLength :: nat
  m_droppedFrames :: nat
  m_processedFrames :: nat
  m_dropRate :: real
  m_avgProcessingTime :: real
  m_targetFPS :: real
  m_actualFPS :: real

record FrameQueue =
  maxSize :: nat
  targetFPS :: real
  queue :: "frame list"
  processing :: bool
  lastProcessTime :: real
  frameInterval :: real
  droppedFrames :: nat
  processedFrames :: nat
  totalFrames :: nat
  avgProcessingTime :: real
  processingTimes :: "real list"
  maxProcessingTimeHistory :: nat
  metrics :: Metrics

text \<open>\<open>constructor(maxSize = 5, targetFPS = 15)\<close>\<close>

definition new_FrameQueue :: "nat \<Rightarrow> real \<Rightarrow> FrameQueue" where
  "new_FrameQueue msize fps =
     \<lparr> maxSize = msize, targetFPS = fps, queue = [], processing = False,
       lastProcessTime = 0, frameInterval = 1000 / fps,
       droppedFrames = 0, processedFrames = 0, totalFrames = 0,
       avgProcessingTime = 0, processingTimes = [], maxProcessingTimeHistory = 10,
       metrics = \<lparr> m_queueLength = 0, m_droppedFrames = 0, m_processedFrames = 0,
                   m_dropRate = 0, m_avgProcessingTime = 0, m_targetFPS = fps,
                   m_actualFPS = 0 \<rparr> \<rparr>"

definition calculateActualFPS :: "FrameQueue \<Rightarrow> real" where
  "calculateActualFPS q =
     (if length (processingTimes q) < 2 then 0
      else if avgProcessingTime q = 0 then 0
      else min (targetFPS q) (1000 / avgProcessingTime q))"

definition updateMetrics :: "FrameQueue \<Rightarrow> FrameQueue" where
  "updateMetrics q =
     q\<lparr> metrics :=
         \<lparr> m_queueLength = length (queue q),
           m_droppedFrames = droppedFrames q,
           m_processedFrames = processedFrames q,
           m_dropRate = (if totalFrames q > 0
                         then (real (droppedFrames q) / real (totalFrames q)) * 100 else 0),
           m_avgProcessingTime = avgProcessingTime q,
           m_targetFPS = targetFPS q,
           m_actualFPS = calculateActualFPS q \<rparr> \<rparr>"

text \<open>
  \<open>enqueue(frameData, captureTimestamp)\<close>. \<open>now\<close> is the reading of
  \<open>performance.now()\<close> and \<open>fid\<close> the generated frame id. The result is \<open>Inr\<close> of
  the returned boolean, or \<open>Inl TypeError\<close> where \<open>droppedFrame.id\<close> is read from the
  \<open>undefined\<close> that \<open>shift()\<close> returns on an empty queue (only possible when
  \<open>maxSize = 0\<close>); the counters already updated at that point stay updated.
\<close>

definition enqueue ::
  "string \<Rightarrow> real \<Rightarrow> real \<Rightarrow> string \<Rightarrow> FrameQueue \<Rightarrow> (error + bool) \<times> FrameQueue" where
  "enqueue frameData captureTs now fid q0 =
     (let q = q0\<lparr>totalFrames := totalFrames q0 + 1\<rparr>;
          timeSinceLastProcess = now - lastProcessTime q
      in if avgProcessingTime q > frameInterval q * 1.5 \<and> totalFrames q mod 2 = 0
         then (Inr False, updateMetrics (q\<lparr>droppedFrames := droppedFrames q + 1\<rparr>))
         else if timeSinceLastProcess < frameInterval q * 0.8
         then (Inr False, updateMetrics (q\<lparr>droppedFrames := droppedFrames q + 1\<rparr>))
         else
           let fr = \<lparr> frame_id = fid, frame_data = frameData,
                      captureTimestamp = captureTs, queueTimestamp = now \<rparr>
           in if length (queue q) \<ge> maxSize q
              then (case queue q of
                      [] \<Rightarrow> (Inl TypeError, q\<lparr>droppedFrames := droppedFrames q + 1\<rparr>)
                    | droppedFrame # rest \<Rightarrow>
                        (Inr True,
                         updateMetrics (q\<lparr>queue := rest @ [fr],
                                           droppedFrames := droppedFrames q + 1\<rparr>)))
              else (Inr True, updateMetrics (q\<lparr>queue := queue q @ [fr]\<rparr>)))"

text \<open>\<open>updateProcessingTime(time)\<close>\<close>

definition updateProcessingTime :: "real \<Rightarrow> FrameQueue \<Rightarrow> FrameQueue" where
  "updateProcessingTime time q =
     (let pushed = processingTimes q @ [time];
          kept = (if length pushed > maxProcessingTimeHistory q then tl pushed else pushed)
      in q\<lparr>processingTimes := kept,
            avgProcessingTime := sum_list kept / real (length kept)\<rparr>)"

text \<open>
  \<open>async dequeue(processFunction)\<close> runs in two parts, separated by the
  \<open>await processFunction(frame)\<close>. The first part, \<open>dequeue\<close>, either returns
  \<open>null\<close> at once (\<open>ReturnedNull\<close>: \<open>processFunction\<close> is not called) or takes the
  head frame, sets the flag and calls \<open>processFunction\<close> on the frame
  (\<open>Awaiting\<close>, holding the local variables \<open>frame\<close> and \<open>processStart\<close> of the
  suspended call). The second part, \<open>dequeue_resume\<close>, runs when the promise settles:
  \<open>Fulfilled r\<close> with \<open>r = None\<close> for a falsy result, or \<open>Rejected\<close> when
  \<open>processFunction\<close> throws or its promise rejects. It returns what the \<open>dequeue\<close>
  promise resolves to (\<open>None\<close> is \<open>null\<close>). A truthy result is an object, as both
  detection functions of the application return; its own content is the opaque
  \<open>r_value\<close>, to which \<open>dequeue\<close> adds the timing fields.
\<close>

record pending_dequeue =
  pd_frame :: frame
  pd_processStart :: real

datatype dequeue_call = ReturnedNull | Awaiting pending_dequeue

datatype settle = Fulfilled "string option" | Rejected

record timed_result =
  r_value :: string
  r_queueLatency :: real
  r_totalLatency :: real
  r_frameId :: string
  r_captureTimestamp :: real

definition dequeue :: "real \<Rightarrow> FrameQueue \<Rightarrow> dequeue_call \<times> FrameQueue" where
  "dequeue now q =
     (if processing q \<or> length (queue q) = 0 then (ReturnedNull, q)
      else (case queue q of
              [] \<Rightarrow> (ReturnedNull, q)
            | fr # rest \<Rightarrow>
                (Awaiting \<lparr> pd_frame = fr, pd_processStart = now \<rparr>,
                 q\<lparr>processing := True, queue := rest\<rparr>)))"

definition dequeue_resume ::
  "pending_dequeue \<Rightarrow> settle \<Rightarrow> real \<Rightarrow> FrameQueue \<Rightarrow> timed_result option \<times> FrameQueue" where
  "dequeue_resume p s processEnd q =
     (case s of
        Rejected \<Rightarrow> (None, q\<lparr>processing := False\<rparr>)
      | Fulfilled r \<Rightarrow>
          (let processingTime = processEnd - pd_processStart p;
               q1 = updateProcessingTime processingTime q;
               q2 = q1\<lparr>processedFrames := processedFrames q1 + 1,
                       lastProcessTime := processEnd\<rparr>;
               res = map_option
                       (\<lambda>v. \<lparr> r_value = v,
                               r_queueLatency = pd_processStart p - queueTimestamp (pd_frame p),
                               r_totalLatency = processEnd - captureTimestamp (pd_frame p),
                               r_frameId = frame_id (pd_frame p),
                               r_captureTimestamp = captureTimestamp (pd_frame p) \<rparr>) r;
               q3 = updateMetrics q2
           in (res, q3\<lparr>processing := False\<rparr>)))"

text \<open>\<open>setTargetFPS(fps)\<close> and \<open>autoAdjustFPS()\<close>. The source also computes
  \<open>Math.max(...this.processingTimes)\<close> and never uses it.\<close>

definition setTargetFPS :: "real \<Rightarrow> FrameQueue \<Rightarrow> FrameQueue" where
  "setTargetFPS fps q = updateMetrics (q\<lparr>targetFPS := fps, frameInterval := 1000 / fps\<rparr>)"

definition autoAdjustFPS :: "FrameQueue \<Rightarrow> FrameQueue" where
  "autoAdjustFPS q =
     (if length (processingTimes q) < 5 then q
      else if avgProcessingTime q > frameInterval q * 1.5
      then setTargetFPS (max 5 (targetFPS q - 1)) q
      else if avgProcessingTime q < frameInterval q * 0.5 \<and> length (queue q) < 2
      then setTargetFPS (min 30 (targetFPS q + 1)) q
      else q)"

subsection \<open>Sequences of operations\<close>

text \<open>
  A frame queue together with the \<open>dequeue\<close> calls that are suspended at their
  \<open>await\<close>. \<open>Settle i s t\<close> settles the \<open>i\<close>-th suspended call with outcome \<open>s\<close> at
  time \<open>t\<close>; it does nothing when there is no such call.
\<close>

record system =
  fq :: FrameQueue
  inflight :: "pending_dequeue list"

datatype op =
    Enqueue string real real string
  | Dequeue real
  | Settle nat settle real
  | AutoAdjust

fun step :: "system \<Rightarrow> op \<Rightarrow> system" where
  "step s (Enqueue frameData captureTs now fid) =
     s\<lparr>fq := snd (enqueue frameData captureTs now fid (fq s))\<rparr>"
| "step s (Dequeue now) =
     (case dequeue now (fq s) of
        (ReturnedNull, q) \<Rightarrow> s\<lparr>fq := q\<rparr>
      | (Awaiting p, q) \<Rightarrow> s\<lparr>fq := q, inflight := inflight s @ [p]\<rparr>)"
| "step s (Settle i r t) =
     (if i < length (inflight s)
      then s\<lparr>fq := snd (dequeue_resume (inflight s ! i) r t (fq s)),
             inflight := take i (inflight s) @ drop (Suc i) (inflight s)\<rparr>
      else s)"
| "step s AutoAdjust = s\<lparr>fq := autoAdjustFPS (fq s)\<rparr>"

definition run :: "op list \<Rightarrow> system \<Rightarrow> system" where
  "run ops s = foldl step s ops"

definition start :: "nat \<Rightarrow> real \<Rightarrow> system" where
  "start msize fps = \<lparr> fq = new_FrameQueue msize fps, inflight = [] \<rparr>"


text \<open>\<open>rejects x\<close>: the operation settles an in-flight \<open>dequeue\<close> whose
  \<open>processFunction\<close> threw.\<close>

fun rejects :: "op \<Rightarrow> bool" where
  "rejects (Settle i Rejected t) = True"
| "rejects _ = False"

definition accounted :: "system \<Rightarrow> bool" where
  "accounted s \<longleftrightarrow>
     processedFrames (fq s) + droppedFrames (fq s) + length (queue (fq s)) + length (inflight s)
       = totalFrames (fq s)"

definition demo_ops :: "op list" where
  "demo_ops = [Enqueue ''a'' 100 100 ''f1'', Dequeue 120, Settle 0 (Fulfilled (Some ''r'')) 150,
               Enqueue ''b'' 160 160 ''f2'', Enqueue ''c'' 300 300 ''f3'']"

text \<open>Processing durations recorded one after the other, as successive completed
  \<open>dequeue\<close> calls do.\<close>

definition record_samples :: "real list \<Rightarrow> FrameQueue \<Rightarrow> FrameQueue" where
  "record_samples ts q = foldl (\<lambda>q t. updateProcessingTime t q) q ts"


definition busy_queue :: FrameQueue where
  "busy_queue = fq (run [Enqueue ''a'' 100 100 ''f1'', Enqueue ''b'' 200 200 ''f2'', Dequeue 210]
                      (start 5 15))"

text \<open>The flag is set exactly while a call is suspended, and at most one is.\<close>

definition lock_inv :: "system \<Rightarrow> bool" where
  "lock_inv s \<longleftrightarrow> (processing (fq s) \<longleftrightarrow> inflight s \<noteq> []) \<and> length (inflight s) \<le> 1"



section \<open>Negotiation: buffered ICE candidates (App.js)\<close>

text \<open>
  The peer connection is the browser's \<open>RTCPeerConnection\<close>. Of it the model keeps
  the remote and local descriptions and the candidates that \<open>addIceCandidate\<close> has
  accepted, in order. Whether a call of the primitive succeeds or throws is given by the
  environment \<open>rtc_env\<close>. Each handler is modelled as one atomic step.
\<close>

type_synonym sdp = string
type_synonym candidate = string

datatype signaling_message =
    GetRoomUsers
  | OfferMsg sdp
  | AnswerMsg sdp string
  | DetectionFrameMsg string string real

record peer_connection =
  remoteDescription :: "sdp option"
  localDescription :: "sdp option"
  addedCandidates :: "candidate list"

record rtc_env =
  setRemoteDescription_ok :: "sdp \<Rightarrow> bool"
  createAnswer_result :: "sdp option"
  setLocalDescription_ok :: "sdp \<Rightarrow> bool"
  addIceCandidate_ok :: "candidate \<Rightarrow> bool"

record negotiation =
  peerConnectionRef :: "peer_connection option"
  iceCandidateQueueRef :: "candidate list"
  neg_errors :: "string list"
  neg_sent :: "signaling_message list"

definition setupPeerConnection :: peer_connection where
  "setupPeerConnection =
     \<lparr> remoteDescription = None, localDescription = None, addedCandidates = [] \<rparr>"

text \<open>\<open>await peerConnectionRef.current.addIceCandidate(candidate)\<close> inside a
  \<open>try\<close> whose \<open>catch\<close> records the error \<open>err\<close>.\<close>

definition try_addIceCandidate :: "rtc_env \<Rightarrow> string \<Rightarrow> candidate \<Rightarrow> negotiation \<Rightarrow> negotiation" where
  "try_addIceCandidate env err c st =
     (case peerConnectionRef st of
        None \<Rightarrow> st\<lparr>neg_errors := neg_errors st @ [err]\<rparr>
      | Some pc \<Rightarrow>
          if addIceCandidate_ok env c
          then st\<lparr>peerConnectionRef := Some (pc\<lparr>addedCandidates := addedCandidates pc @ [c]\<rparr>)\<rparr>
          else st\<lparr>neg_errors := neg_errors st @ [err]\<rparr>)"

definition handleIceCandidate :: "rtc_env \<Rightarrow> candidate \<Rightarrow> negotiation \<Rightarrow> negotiation" where
  "handleIceCandidate env data st =
     (case peerConnectionRef st of
        None \<Rightarrow> st\<lparr>neg_errors := neg_errors st @ [''Failed to handle ICE candidate'']\<rparr>
      | Some pc \<Rightarrow>
          if remoteDescription pc = None
          then st\<lparr>iceCandidateQueueRef := iceCandidateQueueRef st @ [data]\<rparr>
          else try_addIceCandidate env ''Failed to handle ICE candidate'' data st)"

text \<open>The \<open>while (queue.length > 0) { shift(); try { add } catch { ... } }\<close> loop.\<close>

function processQueuedIceCandidates :: "rtc_env \<Rightarrow> negotiation \<Rightarrow> negotiation" where
  "processQueuedIceCandidates env st =
     (case iceCandidateQueueRef st of
        [] \<Rightarrow> st
      | candidateData # rest \<Rightarrow>
          processQueuedIceCandidates env
            (try_addIceCandidate env ''Failed to process queued ICE candidate'' candidateData
               (st\<lparr>iceCandidateQueueRef := rest\<rparr>)))"
  by pat_completeness auto
termination
  by (relation "measure (\<lambda>(env, st). length (iceCandidateQueueRef st))")
     (auto simp: try_addIceCandidate_def split: option.split)

declare processQueuedIceCandidates.simps [simp del]

definition handleOffer :: "rtc_env \<Rightarrow> string \<Rightarrow> sdp \<Rightarrow> negotiation \<Rightarrow> negotiation" where
  "handleOffer env sender_id offer st0 =
     (let pc = (case peerConnectionRef st0 of None \<Rightarrow> setupPeerConnection | Some pc \<Rightarrow> pc);
          st = st0\<lparr>peerConnectionRef := Some pc\<rparr>;
          failed = (\<lambda>s. s\<lparr>neg_errors := neg_errors s @ [''Failed to handle WebRTC offer'']\<rparr>)
      in if \<not> setRemoteDescription_ok env offer then failed st
         else
           let pc1 = pc\<lparr>remoteDescription := Some offer\<rparr>;
               st1 = st\<lparr>peerConnectionRef := Some pc1\<rparr>
           in (case createAnswer_result env of
                 None \<Rightarrow> failed st1
               | Some answer \<Rightarrow>
                   if \<not> setLocalDescription_ok env answer then failed st1
                   else
                     let pc2 = pc1\<lparr>localDescription := Some answer\<rparr>;
                         st2 = st1\<lparr>peerConnectionRef := Some pc2,
                                   neg_sent := neg_sent st1 @ [AnswerMsg answer sender_id]\<rparr>
                     in processQueuedIceCandidates env st2))"

definition handleAnswer :: "rtc_env \<Rightarrow> sdp \<Rightarrow> negotiation \<Rightarrow> negotiation" where
  "handleAnswer env answer st =
     (case peerConnectionRef st of
        None \<Rightarrow> st\<lparr>neg_errors := neg_errors st @ [''Failed to handle WebRTC answer'']\<rparr>
      | Some pc \<Rightarrow>
          if setRemoteDescription_ok env answer
          then st\<lparr>peerConnectionRef := Some (pc\<lparr>remoteDescription := Some answer\<rparr>)\<rparr>
          else st\<lparr>neg_errors := neg_errors st @ [''Failed to handle WebRTC answer'']\<rparr>)"

text \<open>An environment in which every primitive succeeds, and the state of a client whose
  peer connection exists (it is created when the room id is set) and has no remote
  description yet.\<close>

definition env_ok :: rtc_env where
  "env_ok = \<lparr> setRemoteDescription_ok = (\<lambda>_. True), createAnswer_result = Some ''answer-sdp'',
               setLocalDescription_ok = (\<lambda>_. True), addIceCandidate_ok = (\<lambda>_. True) \<rparr>"

definition fresh_negotiation :: negotiation where
  "fresh_negotiation = \<lparr> peerConnectionRef = Some setupPeerConnection,
                          iceCandidateQueueRef = [], neg_errors = [], neg_sent = [] \<rparr>"

definition three_buffered :: negotiation where
  "three_buffered =
     handleIceCandidate env_ok ''c3''
       (handleIceCandidate env_ok ''c2''
          (handleIceCandidate env_ok ''c1'' fresh_negotiation))"

section \<open>Signaling: the pending offer (App.js)\<close>

text \<open>
  What a \<open>send\<close> returns to its caller: the WebSocket wrapper returns a boolean;
  \<open>HTTPSignaling.send\<close> is an \<open>async\<close> function, so its caller gets a Promise
  (which will resolve to \<open>response.ok\<close>, or to \<open>false\<close> when \<open>fetch\<close> throws).
  A Promise is an object, and every object is truthy.
\<close>

datatype js_value = JSBool bool | JSPromise bool

fun truthy :: "js_value \<Rightarrow> bool" where
  "truthy (JSBool b) = b"
| "truthy (JSPromise _) = True"

datatype transport = WebSocketWrapper | HTTPSignaling

text \<open>
  \<open>wsSent\<close> lists the messages handed to \<open>ws.send\<close>; \<open>httpPosts\<close> lists the
  requests made by \<open>HTTPSignaling.send\<close>, each with whether the server accepted it.
\<close>

record signaling =
  signalingRef :: "transport option"
  pendingOffer :: "sdp option"
  wsSent :: "signaling_message list"
  httpPosts :: "(signaling_message \<times> bool) list"
  connectionStatus :: string
  sig_errors :: "string list"

text \<open>\<open>wsWrapper.send(message)\<close>; \<open>ws_open\<close> is \<open>ws.readyState === WebSocket.OPEN\<close>.\<close>

definition wsWrapper_send :: "bool \<Rightarrow> signaling_message \<Rightarrow> signaling \<Rightarrow> js_value \<times> signaling" where
  "wsWrapper_send ws_open message st =
     (if ws_open then (JSBool True, st\<lparr>wsSent := wsSent st @ [message]\<rparr>)
      else (JSBool False, st))"

text \<open>\<open>HTTPSignaling.send(message)\<close>; \<open>post_ok\<close> is the outcome of the request.\<close>

definition http_send :: "bool \<Rightarrow> signaling_message \<Rightarrow> signaling \<Rightarrow> js_value \<times> signaling" where
  "http_send post_ok message st =
     (JSPromise post_ok, st\<lparr>httpPosts := httpPosts st @ [(message, post_ok)]\<rparr>)"

definition sendSignalingMessage ::
  "bool \<Rightarrow> bool \<Rightarrow> signaling_message \<Rightarrow> signaling \<Rightarrow> js_value \<times> signaling" where
  "sendSignalingMessage ws_open post_ok message st =
     (case signalingRef st of
        None \<Rightarrow> (JSBool False, st)
      | Some WebSocketWrapper \<Rightarrow> wsWrapper_send ws_open message st
      | Some HTTPSignaling \<Rightarrow> http_send post_ok message st)"

text \<open>The end of \<open>startLocalCamera\<close>: send the offer, or store it as pending.\<close>

definition send_offer :: "bool \<Rightarrow> bool \<Rightarrow> sdp \<Rightarrow> signaling \<Rightarrow> signaling" where
  "send_offer ws_open post_ok offer st =
     (let (offerSent, st1) = sendSignalingMessage ws_open post_ok (OfferMsg offer) st
      in if truthy offerSent then st1 else st1\<lparr>pendingOffer := Some offer\<rparr>)"

text \<open>\<open>ws.onopen\<close>\<close>

definition ws_onopen :: "bool \<Rightarrow> signaling \<Rightarrow> signaling" where
  "ws_onopen ws_open st0 =
     (let st = st0\<lparr>connectionStatus := ''connected'', signalingRef := Some WebSocketWrapper\<rparr>;
          (r, st1) = wsWrapper_send ws_open GetRoomUsers st
      in case pendingOffer st1 of
           None \<Rightarrow> st1
         | Some offer \<Rightarrow>
             (let (sent, st2) = wsWrapper_send ws_open (OfferMsg offer) st1
              in if truthy sent then st2\<lparr>pendingOffer := None\<rparr> else st2))"

text \<open>\<open>initHTTPSignaling\<close>; \<open>connect_ok\<close> is the result of
  \<open>await httpSignaling.connect()\<close>, which sets the status itself.\<close>

definition initHTTPSignaling :: "bool \<Rightarrow> bool \<Rightarrow> signaling \<Rightarrow> signaling" where
  "initHTTPSignaling connect_ok post_ok st0 =
     (if connect_ok
      then
        (let st = st0\<lparr>connectionStatus := ''connected'', signalingRef := Some HTTPSignaling\<rparr>
         in case pendingOffer st of
              None \<Rightarrow> st
            | Some offer \<Rightarrow>
                (let (sent, st1) = http_send post_ok (OfferMsg offer) st
                 in if truthy sent then st1\<lparr>pendingOffer := None\<rparr> else st1))
      else st0\<lparr>connectionStatus := ''error'',
               sig_errors := sig_errors st0 @ [''All signaling methods failed'']\<rparr>)"

definition no_transport :: signaling where
  "no_transport = \<lparr> signalingRef = None, pendingOffer = None, wsSent = [], httpPosts = [],
                     connectionStatus = ''disconnected'', sig_errors = [] \<rparr>"

section \<open>Remote detection: pending requests and their timeout (App.js)\<close>

text \<open>
  \<open>window.pendingDetections\<close> maps a frame id to the \<open>resolve\<close> function of the
  Promise that \<open>processServerDetection\<close> returned; it is \<open>undefined\<close> (\<open>None\<close>)
  until the first request. Promises are numbered, and \<open>resolveCalls\<close> lists every call
  of a \<open>resolve\<close> function with its argument (\<open>None\<close> for \<open>null\<close>). A
  \<open>setTimeout\<close> callback is kept in \<open>timers\<close> with the time at which it is due,
  and runs when the clock is advanced to that time or beyond.
\<close>

record detection_result =
  dr_frame_id :: string
  dr_capture_ts :: real
  dr_recv_ts :: real
  dr_inference_ts :: real
  dr_detections :: "string list"
  dr_mode_wasm :: bool

record dispatcher =
  transport_ready :: bool
  pendingDetections :: "(string \<rightharpoonup> nat) option"
  timers :: "(real \<times> string \<times> nat) list"
  resolveCalls :: "(nat \<times> detection_result option) list"
  nextPromise :: nat
  framesSent :: "signaling_message list"
  latencies :: "real list"
  detectionTimes :: "real list"
  detections :: "string list"
  detectionMode_wasm :: bool
  wasm_actualFPS :: real
  metric_fps :: real
  metric_latency :: int
  metric_detectionCount :: nat
  metric_bandwidth :: real

text \<open>\<open>handleDetectionResult(result)\<close>; drawing on the canvas is not modelled.
  \<open>Math.round(x)\<close> is \<open>\<lfloor>x + 1/2\<rfloor>\<close>, and \<open>(a - b) || 0\<close> is \<open>a - b\<close> for
  numbers (the fields of a result are always present in the model).\<close>

definition handleDetectionResult :: "real \<Rightarrow> detection_result \<Rightarrow> dispatcher \<Rightarrow> dispatcher" where
  "handleDetectionResult now result st =
     (let e2eLatency = now - dr_capture_ts result;
          serverLatency = dr_inference_ts result - dr_recv_ts result;
          ls = latencies st @ [e2eLatency];
          ds = detectionTimes st @ [serverLatency];
          over = length ls > 100
      in st\<lparr> latencies := (if over then tl ls else ls),
              detectionTimes := (if over then tl ds else ds),
              detections := dr_detections result,
              metric_latency := \<lfloor>e2eLatency + 1 / 2\<rfloor>,
              metric_detectionCount := length (dr_detections result),
              metric_fps := (if detectionMode_wasm st \<and> wasm_actualFPS st \<noteq> 0
                             then wasm_actualFPS st else metric_fps st),
              metric_bandwidth := (if dr_mode_wasm result then 0 else metric_bandwidth st) \<rparr>)"


text \<open>The callback given to \<open>setTimeout\<close>, closed over \<open>frameId\<close> and \<open>resolve\<close>.\<close>

definition timeout_callback :: "string \<Rightarrow> nat \<Rightarrow> dispatcher \<Rightarrow> dispatcher" where
  "timeout_callback frameId promise st =
     (case pendingDetections st of
        None \<Rightarrow> st
      | Some m \<Rightarrow>
          (case m frameId of
             None \<Rightarrow> st
           | Some _ \<Rightarrow> st\<lparr> pendingDetections := Some (m(frameId := None)),
                           resolveCalls := resolveCalls st @ [(promise, None)] \<rparr>))"

fun fire_timers :: "real \<Rightarrow> (real \<times> string \<times> nat) list \<Rightarrow> dispatcher \<Rightarrow> dispatcher" where
  "fire_timers now [] st = st"
| "fire_timers now ((due, frameId, promise) # rest) st =
     (if due \<le> now then fire_timers now rest (timeout_callback frameId promise st)
      else fire_timers now rest st)"










section \<open>Properties of the frame queue\<close>

subsection \<open>What the operations preserve\<close>


lemma updateMetrics_fields [simp]:
  "maxSize (updateMetrics q) = maxSize q"
  "targetFPS (updateMetrics q) = targetFPS q"
  "queue (updateMetrics q) = queue q"
  "processing (updateMetrics q) = processing q"
  "lastProcessTime (updateMetrics q) = lastProcessTime q"
  "frameInterval (updateMetrics q) = frameInterval q"
  "droppedFrames (updateMetrics q) = droppedFrames q"
  "processedFrames (updateMetrics q) = processedFrames q"
  "totalFrames (updateMetrics q) = totalFrames q"
  "avgProcessingTime (updateMetrics q) = avgProcessingTime q"
  "processingTimes (updateMetrics q) = processingTimes q"
  "maxProcessingTimeHistory (updateMetrics q) = maxProcessingTimeHistory q"
  by (simp_all add: updateMetrics_def)

lemma enqueue_maxSize [simp]:
  "maxSize (snd (enqueue d c now fid q)) = maxSize q"
  by (simp add: enqueue_def Let_def split: list.split)


lemma dequeue_maxSize [simp]: "maxSize (snd (dequeue now q)) = maxSize q"
  by (simp add: dequeue_def split: list.split)


lemma updateProcessingTime_fields [simp]:
  "maxSize (updateProcessingTime t q) = maxSize q"
  "targetFPS (updateProcessingTime t q) = targetFPS q"
  "queue (updateProcessingTime t q) = queue q"
  "processing (updateProcessingTime t q) = processing q"
  "lastProcessTime (updateProcessingTime t q) = lastProcessTime q"
  "frameInterval (updateProcessingTime t q) = frameInterval q"
  "droppedFrames (updateProcessingTime t q) = droppedFrames q"
  "processedFrames (updateProcessingTime t q) = processedFrames q"
  "totalFrames (updateProcessingTime t q) = totalFrames q"
  "maxProcessingTimeHistory (updateProcessingTime t q) = maxProcessingTimeHistory q"
  by (simp_all add: updateProcessingTime_def Let_def)

lemma dequeue_resume_queue [simp]:
  "queue (snd (dequeue_resume p s t q)) = queue q"
  "maxSize (snd (dequeue_resume p s t q)) = maxSize q"
  by (simp_all add: dequeue_resume_def Let_def split: settle.split)

lemma autoAdjustFPS_queue [simp]:
  "queue (autoAdjustFPS q) = queue q"
  "maxSize (autoAdjustFPS q) = maxSize q"
  by (simp_all add: autoAdjustFPS_def setTargetFPS_def)







lemma enqueue_accounted:
  "processedFrames (snd (enqueue d c now fid q)) + droppedFrames (snd (enqueue d c now fid q))
     + length (queue (snd (enqueue d c now fid q)))
   = Suc (processedFrames q + droppedFrames q + length (queue q)) \<and>
   totalFrames (snd (enqueue d c now fid q)) = Suc (totalFrames q)"
  by (auto simp: enqueue_def Let_def split: list.split)

lemma length_remove_nth: "i < length xs \<Longrightarrow> Suc (length (take i xs @ drop (Suc i) xs)) = length xs"
  by simp

lemma dequeue_resume_counters:
  "processedFrames (snd (dequeue_resume p (Fulfilled r) t q)) = Suc (processedFrames q)"
  "droppedFrames (snd (dequeue_resume p s t q)) = droppedFrames q"
  "totalFrames (snd (dequeue_resume p s t q)) = totalFrames q"
  by (simp_all add: dequeue_resume_def Let_def split: settle.split)

lemma autoAdjustFPS_counters [simp]:
  "processedFrames (autoAdjustFPS q) = processedFrames q"
  "droppedFrames (autoAdjustFPS q) = droppedFrames q"
  "totalFrames (autoAdjustFPS q) = totalFrames q"
  "processing (autoAdjustFPS q) = processing q"
  by (simp_all add: autoAdjustFPS_def setTargetFPS_def)

lemma step_accounted:
  assumes "accounted s" and "\<not> rejects x"
  shows "accounted (step s x)"
proof (cases x)
  case (Enqueue d c now fid)
  then show ?thesis using assms(1) enqueue_accounted[of d c now fid "fq s"]
    by (simp add: accounted_def)
next
  case (Dequeue now)
  then show ?thesis using assms(1)
    by (auto simp: accounted_def dequeue_def split: list.split)
next
  case (Settle i r t)
  with assms(2) obtain v where r: "r = Fulfilled v" by (cases r) auto
  show ?thesis
  proof (cases "i < length (inflight s)")
    case True
    then show ?thesis using assms(1) Settle r length_remove_nth[OF True]
      by (simp add: accounted_def dequeue_resume_counters del: length_append length_take length_drop)
  next
    case False
    then show ?thesis using assms(1) Settle by simp
  qed
next
  case AutoAdjust
  then show ?thesis using assms(1) by (simp add: accounted_def)
qed

lemma run_accounted:
  assumes "accounted s" and "\<forall>x \<in> set ops. \<not> rejects x"
  shows "accounted (run ops s)"
  using assms
proof (induction ops arbitrary: s)
  case Nil
  then show ?case by (simp add: run_def)
next
  case (Cons x xs)
  have "accounted (step s x)" using step_accounted[of s x] Cons.prems by simp
  then have "accounted (run xs (step s x))" using Cons.IH Cons.prems(2) by simp
  then show ?case by (simp add: run_def)
qed

text \<open>
  Claim C2, as stated, fails: after a single accepted \<open>enqueue\<close> one frame has been
  submitted and none has been processed or dropped.
\<close>

theorem accounting_counterexample:
  "processedFrames (fq (run [Enqueue ''a'' 100 100 ''f1''] (start 5 15)))
   + droppedFrames (fq (run [Enqueue ''a'' 100 100 ''f1''] (start 5 15)))
   \<noteq> totalFrames (fq (run [Enqueue ''a'' 100 100 ''f1''] (start 5 15)))"
  by (simp add: run_def start_def enqueue_def Let_def new_FrameQueue_def)

text \<open>
  Claim C2, amended. After every sequence of operations in which no \<open>processFunction\<close>
  throws, the processed frames, the counted drops, the frames still queued and the frame in
  flight add up to the frames submitted.
\<close>

theorem accounting_with_queued:
  assumes "\<forall>x \<in> set ops. \<not> rejects x"
  shows "processedFrames (fq (run ops (start n fps))) + droppedFrames (fq (run ops (start n fps)))
         + length (queue (fq (run ops (start n fps)))) + length (inflight (run ops (start n fps)))
         = totalFrames (fq (run ops (start n fps)))"
proof -
  have "accounted (start n fps)" by (simp add: accounted_def start_def new_FrameQueue_def)
  from run_accounted[OF this assms] show ?thesis by (simp add: accounted_def)
qed

theorem accounting_with_queued_witness:
  "processedFrames (fq (run demo_ops (start 5 15))) = 1 \<and>
   droppedFrames (fq (run demo_ops (start 5 15))) = 1 \<and>
   length (queue (fq (run demo_ops (start 5 15)))) = 1 \<and>
   length (inflight (run demo_ops (start 5 15))) = 0 \<and>
   totalFrames (fq (run demo_ops (start 5 15))) = 3"
proof -
  have h: "\<forall>x \<in> set demo_ops. \<not> rejects x" by (simp add: demo_ops_def)
  have d: "droppedFrames (fq (run demo_ops (start 5 15))) = 1"
    by (simp add: demo_ops_def run_def start_def enqueue_def dequeue_def Let_def new_FrameQueue_def
         dequeue_resume_def)
  have p: "processedFrames (fq (run demo_ops (start 5 15))) = 1"
    by (simp add: demo_ops_def run_def start_def enqueue_def dequeue_def Let_def new_FrameQueue_def
         dequeue_resume_def)
  have l: "length (queue (fq (run demo_ops (start 5 15)))) = 1"
    by (simp add: demo_ops_def run_def start_def enqueue_def dequeue_def Let_def new_FrameQueue_def
         dequeue_resume_def)
  have i: "length (inflight (run demo_ops (start 5 15))) = 0"
    by (simp add: demo_ops_def run_def start_def enqueue_def dequeue_def Let_def new_FrameQueue_def
         dequeue_resume_def)
  show ?thesis using accounting_with_queued[OF h, of 5 15] d p l i by simp
qed

subsection \<open>The interval gate\<close>



subsection \<open>The single consumer\<close>

lemma enqueue_processing [simp]:
  "processing (snd (enqueue d c now fid q)) = processing q"
  by (simp add: enqueue_def Let_def split: list.split)

lemma dequeue_resume_processing [simp]:
  "processing (snd (dequeue_resume p s t q)) = False"
  by (simp add: dequeue_resume_def Let_def split: settle.split)

lemma step_lock_inv:
  assumes "lock_inv s"
  shows "lock_inv (step s x)"
proof (cases x)
  case (Enqueue d c now fid)
  then show ?thesis using assms by (simp add: lock_inv_def)
next
  case (Dequeue now)
  then show ?thesis using assms
    by (auto simp: lock_inv_def dequeue_def split: list.split)
next
  case (Settle i r t)
  then show ?thesis using assms
    by (cases "inflight s") (auto simp: lock_inv_def)
next
  case AutoAdjust
  then show ?thesis using assms by (simp add: lock_inv_def)
qed

lemma run_lock_inv: "lock_inv s \<Longrightarrow> lock_inv (run ops s)"
proof (induction ops arbitrary: s)
  case Nil
  then show ?case by (simp add: run_def)
next
  case (Cons x xs)
  from Cons.IH[OF step_lock_inv[OF Cons.prems]] show ?case by (simp add: run_def)
qed

lemma start_lock_inv: "lock_inv (start n fps)"
  by (simp add: lock_inv_def start_def new_FrameQueue_def)



text \<open>
  Claim C10, as stated, fails for an invocation that arrives while another one is in
  flight: it returns \<open>null\<close> at the entry guard, before the \<open>try\<close>, and the flag
  is still set when it has completed.
\<close>

theorem busy_dequeue_counterexample:
  "fst (dequeue 220 busy_queue) = ReturnedNull \<and> processing (snd (dequeue 220 busy_queue))"
  by (simp add: busy_queue_def run_def start_def enqueue_def dequeue_def Let_def new_FrameQueue_def)

text \<open>
  Claim C10, amended. A \<open>dequeue\<close> invocation that passes the entry guard always clears
  the flag when it completes, whatever the outcome of \<open>processFunction\<close> and whatever
  happened to the queue meanwhile; when \<open>processFunction\<close> throws it returns
  \<open>null\<close>. An invocation that returns \<open>null\<close> at the guard leaves the flag as it
  found it: clear when it was clear, set when another invocation is in flight. After any
  sequence of operations on a new queue, the flag is clear as soon as no invocation is in
  flight.
\<close>

theorem dequeue_releases_lock:
  "\<not> processing (snd (dequeue_resume p s t q')) \<and>
   fst (dequeue_resume p Rejected t q') = None \<and>
   (\<not> processing q \<and> fst (dequeue now q) = ReturnedNull \<longrightarrow> \<not> processing (snd (dequeue now q))) \<and>
   (processing q \<longrightarrow> dequeue now q = (ReturnedNull, q)) \<and>
   (inflight (run ops (start n fps)) = [] \<longrightarrow> \<not> processing (fq (run ops (start n fps))))"
proof -
  have "lock_inv (run ops (start n fps))" using run_lock_inv[OF start_lock_inv] .
  then have e: "inflight (run ops (start n fps)) = [] \<longrightarrow> \<not> processing (fq (run ops (start n fps)))"
    by (simp add: lock_inv_def)
  have r: "fst (dequeue_resume p Rejected t q') = None"
    by (simp add: dequeue_resume_def)
  have g: "\<not> processing q \<and> fst (dequeue now q) = ReturnedNull \<longrightarrow> \<not> processing (snd (dequeue now q))"
    by (auto simp: dequeue_def split: list.splits)
  have b: "processing q \<longrightarrow> dequeue now q = (ReturnedNull, q)"
    by (simp add: dequeue_def)
  show ?thesis using e r g b by simp
qed

theorem dequeue_releases_lock_witness:
  "\<not> processing (snd (dequeue 5 (new_FrameQueue 5 15))) \<and>
   dequeue 220 busy_queue = (ReturnedNull, busy_queue) \<and>
   \<not> processing (fq (run [Enqueue ''a'' 100 100 ''f1'', Dequeue 120, Settle 0 Rejected 130] (start 5 15)))"
proof -
  have a: "processing busy_queue"
    by (simp add: busy_queue_def run_def start_def enqueue_def dequeue_def Let_def new_FrameQueue_def)
  have b: "\<not> processing (new_FrameQueue 5 15) \<and> fst (dequeue 5 (new_FrameQueue 5 15)) = ReturnedNull"
    by (simp add: new_FrameQueue_def dequeue_def)
  have c: "inflight (run [Enqueue ''a'' 100 100 ''f1'', Dequeue 120, Settle 0 Rejected 130] (start 5 15)) = []"
    by (simp add: run_def start_def enqueue_def dequeue_def Let_def new_FrameQueue_def)
  show ?thesis
    using dequeue_releases_lock[of _ _ _ _ busy_queue 220
            "[Enqueue ''a'' 100 100 ''f1'', Dequeue 120, Settle 0 Rejected 130]" 5 15]
          dequeue_releases_lock[of _ _ _ _ "new_FrameQueue 5 15" 5 "[]" 5 15] a b c
    by simp
qed

subsection \<open>Adaptive thinning\<close>

lemma record_samples_snoc:
  "record_samples (ts @ [t]) q = updateProcessingTime t (record_samples ts q)"
  by (simp add: record_samples_def)

lemma record_samples_fields [simp]:
  "maxProcessingTimeHistory (record_samples ts q) = maxProcessingTimeHistory q"
  "frameInterval (record_samples ts q) = frameInterval q"
  "totalFrames (record_samples ts q) = totalFrames q"
  "targetFPS (record_samples ts q) = targetFPS q"
  "queue (record_samples ts q) = queue q"
  by (induction ts rule: rev_induct) (simp_all add: record_samples_snoc, simp_all add: record_samples_def)



lemma enqueue_rate_fields [simp]:
  "avgProcessingTime (snd (enqueue d c now fid q)) = avgProcessingTime q"
  "frameInterval (snd (enqueue d c now fid q)) = frameInterval q"
  "targetFPS (snd (enqueue d c now fid q)) = targetFPS q"
  "totalFrames (snd (enqueue d c now fid q)) = Suc (totalFrames q)"
  by (simp_all add: enqueue_def Let_def split: list.split)







subsection \<open>Automatic rate control\<close>


lemma dequeue_targetFPS [simp]: "targetFPS (snd (dequeue now q)) = targetFPS q"
  by (simp add: dequeue_def split: list.split)

lemma dequeue_resume_targetFPS [simp]: "targetFPS (snd (dequeue_resume p s t q)) = targetFPS q"
  by (simp add: dequeue_resume_def Let_def split: settle.split)






section \<open>Properties of the negotiation\<close>

lemma processQueued_drains:
  assumes "peerConnectionRef st = Some pc" and "\<forall>c \<in> set (iceCandidateQueueRef st). addIceCandidate_ok env c"
  shows "processQueuedIceCandidates env st =
           st\<lparr>iceCandidateQueueRef := [],
              peerConnectionRef :=
                Some (pc\<lparr>addedCandidates := addedCandidates pc @ iceCandidateQueueRef st\<rparr>)\<rparr>"
  using assms
proof (induction "iceCandidateQueueRef st" arbitrary: st pc)
  case Nil
  then show ?case by (simp add: processQueuedIceCandidates.simps[of env st])
next
  case (Cons c rest)
  let ?st' = "try_addIceCandidate env ''Failed to process queued ICE candidate'' c
               (st\<lparr>iceCandidateQueueRef := rest\<rparr>)"
  have ok: "addIceCandidate_ok env c" using Cons.hyps(2) Cons.prems(2) by (metis list.set_intros(1))
  have st': "?st' = st\<lparr>iceCandidateQueueRef := rest,
                        peerConnectionRef := Some (pc\<lparr>addedCandidates := addedCandidates pc @ [c]\<rparr>)\<rparr>"
    using Cons.prems(1) ok by (simp add: try_addIceCandidate_def)
  have q: "rest = iceCandidateQueueRef ?st'" by (simp add: st')
  have p: "peerConnectionRef ?st' = Some (pc\<lparr>addedCandidates := addedCandidates pc @ [c]\<rparr>)"
    by (simp add: st')
  have a: "\<forall>c \<in> set (iceCandidateQueueRef ?st'). addIceCandidate_ok env c"
    using Cons.hyps(2) Cons.prems(2) q by (metis list.set_intros(2))
  have "processQueuedIceCandidates env st = processQueuedIceCandidates env ?st'"
    using Cons.hyps(2)[symmetric] by (simp add: processQueuedIceCandidates.simps[of env st])
  also have "\<dots> = ?st'\<lparr>iceCandidateQueueRef := [],
              peerConnectionRef :=
                Some (pc\<lparr>addedCandidates := addedCandidates pc @ [c],
                         addedCandidates := (addedCandidates pc @ [c]) @ iceCandidateQueueRef ?st'\<rparr>)\<rparr>"
    using Cons.hyps(1)[OF q p a] by simp
  finally show ?case using Cons.hyps(2)[symmetric] by (simp add: st')
qed

text \<open>On the offer path the buffered candidates are replayed in arrival order.\<close>

lemma offer_replays_buffered:
  assumes "peerConnectionRef st = Some pc"
    and "setRemoteDescription_ok env offer" and "createAnswer_result env = Some answer"
    and "setLocalDescription_ok env answer"
    and "\<forall>c \<in> set (iceCandidateQueueRef st). addIceCandidate_ok env c"
  shows "iceCandidateQueueRef (handleOffer env sender offer st) = [] \<and>
         map_option addedCandidates (peerConnectionRef (handleOffer env sender offer st)) =
           Some (addedCandidates pc @ iceCandidateQueueRef st)"
proof -
  let ?pc2 = "pc\<lparr>remoteDescription := Some offer, localDescription := Some answer\<rparr>"
  let ?st2 = "st\<lparr>peerConnectionRef := Some ?pc2,
                  neg_sent := neg_sent st @ [AnswerMsg answer sender]\<rparr>"
  have "handleOffer env sender offer st = processQueuedIceCandidates env ?st2"
    using assms(1-4) by (simp add: handleOffer_def Let_def)
  moreover have "processQueuedIceCandidates env ?st2 =
       ?st2\<lparr>iceCandidateQueueRef := [],
            peerConnectionRef :=
              Some (?pc2\<lparr>addedCandidates := addedCandidates ?pc2 @ iceCandidateQueueRef ?st2\<rparr>)\<rparr>"
    by (rule processQueued_drains) (use assms(5) in simp_all)
  ultimately show ?thesis by simp
qed

lemma buffered_candidates:
  "iceCandidateQueueRef three_buffered = [''c1'', ''c2'', ''c3''] \<and>
   peerConnectionRef three_buffered = Some setupPeerConnection"
  by (simp add: three_buffered_def handleIceCandidate_def fresh_negotiation_def
        setupPeerConnection_def)

text \<open>
  Claim C7 fails on the answer path. Three candidates arrive while the peer connection has
  no remote description and are buffered; the answer is then applied as remote
  description. \<open>handleAnswer\<close> does not call \<open>processQueuedIceCandidates\<close>: the three
  candidates stay in the buffer and none is added to the peer connection.
\<close>

theorem answer_leaves_candidates_buffered:
  "iceCandidateQueueRef (handleAnswer env_ok ''answer'' three_buffered) = [''c1'', ''c2'', ''c3''] \<and>
   map_option remoteDescription (peerConnectionRef (handleAnswer env_ok ''answer'' three_buffered))
     = Some (Some ''answer'') \<and>
   map_option addedCandidates (peerConnectionRef (handleAnswer env_ok ''answer'' three_buffered))
     = Some [] \<and>
   map_option addedCandidates (peerConnectionRef (handleOffer env_ok ''peer'' ''offer'' three_buffered))
     = Some [''c1'', ''c2'', ''c3'']"
proof -
  have o: "map_option addedCandidates (peerConnectionRef (handleOffer env_ok ''peer'' ''offer'' three_buffered))
     = Some [''c1'', ''c2'', ''c3'']"
    using offer_replays_buffered[of three_buffered setupPeerConnection env_ok "''offer''"
        "''answer-sdp''" "''peer''"] buffered_candidates
    by (simp add: env_ok_def setupPeerConnection_def)
  show ?thesis using o buffered_candidates
    by (simp add: handleAnswer_def env_ok_def setupPeerConnection_def)
qed

section \<open>Properties of the signaling channel\<close>

text \<open>On the WebSocket path the pending offer is sent once and cleared exactly when it was
  sent; once cleared, no later transport-ready event sends an offer.\<close>

lemma ws_onopen_flushes:
  assumes "pendingOffer st = Some offer"
  shows "wsSent (ws_onopen True st) = wsSent st @ [GetRoomUsers, OfferMsg offer] \<and>
         pendingOffer (ws_onopen True st) = None \<and>
         wsSent (ws_onopen False st) = wsSent st \<and>
         pendingOffer (ws_onopen False st) = Some offer"
  using assms by (simp add: ws_onopen_def wsWrapper_send_def Let_def)

lemma no_pending_no_resend:
  assumes "pendingOffer st = None"
  shows "wsSent (ws_onopen ws_open st) = wsSent st @ (if ws_open then [GetRoomUsers] else []) \<and>
         httpPosts (ws_onopen ws_open st) = httpPosts st \<and>
         wsSent (initHTTPSignaling connect_ok post_ok st) = wsSent st \<and>
         httpPosts (initHTTPSignaling connect_ok post_ok st) = httpPosts st \<and>
         pendingOffer (ws_onopen ws_open st) = None \<and>
         pendingOffer (initHTTPSignaling connect_ok post_ok st) = None"
  using assms by (simp add: ws_onopen_def wsWrapper_send_def initHTTPSignaling_def Let_def)

text \<open>
  Claim C8 fails on the HTTP path. An offer is stored as pending because no transport is
  available; HTTP signaling then connects, and the request that carries the offer fails.
  The condition \<open>if (httpSignaling.send(window.pendingOffer))\<close> tests a Promise, which
  is always truthy, so the pending offer is cleared although it was not delivered, and no
  later transport-ready event sends it. On the WebSocket path the same failure keeps the
  offer pending.
\<close>

theorem http_clears_undelivered_offer:
  "pendingOffer (send_offer False False ''offer-sdp'' no_transport) = Some ''offer-sdp'' \<and>
   pendingOffer (initHTTPSignaling True False (send_offer False False ''offer-sdp'' no_transport))
     = None \<and>
   httpPosts (initHTTPSignaling True False (send_offer False False ''offer-sdp'' no_transport))
     = [(OfferMsg ''offer-sdp'', False)] \<and>
   wsSent (ws_onopen True
            (initHTTPSignaling True False (send_offer False False ''offer-sdp'' no_transport)))
     = [GetRoomUsers] \<and>
   pendingOffer (ws_onopen False (send_offer False False ''offer-sdp'' no_transport))
     = Some ''offer-sdp''"
  by (simp add: send_offer_def sendSignalingMessage_def no_transport_def initHTTPSignaling_def
        http_send_def ws_onopen_def wsWrapper_send_def Let_def)

section \<open>Properties of remote detection\<close>

lemma handleDetectionResult_keeps [simp]:
  "resolveCalls (handleDetectionResult now result st) = resolveCalls st"
  "pendingDetections (handleDetectionResult now result st) = pendingDetections st"
  "timers (handleDetectionResult now result st) = timers st"
  "nextPromise (handleDetectionResult now result st) = nextPromise st"
  by (simp_all add: handleDetectionResult_def Let_def)



lemma timeout_callback_timers [simp]:
  "timers (timeout_callback f p st) = timers st"
  by (simp add: timeout_callback_def split: option.split)

lemma fire_timers_timers [simp]:
  "timers (fire_timers now ts st) = timers st"
  by (induction ts arbitrary: st) auto






end
